theory Spec2Isabelle
  imports Main "HOL-Library.Sublist"
begin

unbundle bit_operations_syntax

section \<open>Go strings, runes and UTF-8\<close>

text \<open>
  A Go \<^verbatim>\<open>string\<close> is a sequence of bytes; it is modelled as \<^typ>\<open>string\<close>, a list of
  8-bit characters. A \<^verbatim>\<open>rune\<close> is an \<^verbatim>\<open>int32\<close>; no arithmetic of the program can
  overflow it (the only addition is \<^verbatim>\<open>'a' - 'A'\<close> on an upper-case ASCII letter), so a
  rune is an \<^typ>\<open>int\<close>.
\<close>

type_synonym rune = int

definition byte :: "char \<Rightarrow> int" where
  "byte c = of_char c"

definition RuneError :: rune where
  "RuneError = 0xFFFD"

definition isCont :: "char \<Rightarrow> bool" where
  \<comment> \<open>\<^verbatim>\<open>locb <= b && b <= hicb\<close>: a UTF-8 continuation byte.\<close>
  "isCont c = (0x80 \<le> byte c \<and> byte c \<le> 0xBF)"

text \<open>
  \<^verbatim>\<open>utf8.DecodeRuneInString\<close>, which is also what \<^verbatim>\<open>for i, v := range s\<close> does at
  each position of a non-empty string (\<^verbatim>\<open>runtime.decoderune\<close>): the rune and its width in
  bytes. An invalid or truncated encoding yields \<^verbatim>\<open>(RuneError, 1)\<close>, the empty string
  \<^verbatim>\<open>(RuneError, 0)\<close>.
\<close>

fun DecodeRuneInString :: "string \<Rightarrow> rune \<times> nat" where
  "DecodeRuneInString [] = (RuneError, 0)"
| "DecodeRuneInString (c0 # cs) =
     (if byte c0 < 0x80 then (byte c0, 1)
      else if 0xC0 \<le> byte c0 \<and> byte c0 < 0xE0 then
        (case cs of
           c1 # _ \<Rightarrow>
             (let r = push_bit 6 (byte c0 AND 0x1F) OR (byte c1 AND 0x3F)
              in if isCont c1 \<and> 0x7F < r then (r, 2) else (RuneError, 1))
         | _ \<Rightarrow> (RuneError, 1))
      else if 0xE0 \<le> byte c0 \<and> byte c0 < 0xF0 then
        (case cs of
           c1 # c2 # _ \<Rightarrow>
             (let r = push_bit 12 (byte c0 AND 0x0F) OR push_bit 6 (byte c1 AND 0x3F)
                        OR (byte c2 AND 0x3F)
              in if isCont c1 \<and> isCont c2 \<and> 0x7FF < r \<and> \<not> (0xD800 \<le> r \<and> r \<le> 0xDFFF)
                 then (r, 3) else (RuneError, 1))
         | _ \<Rightarrow> (RuneError, 1))
      else if 0xF0 \<le> byte c0 \<and> byte c0 < 0xF8 then
        (case cs of
           c1 # c2 # c3 # _ \<Rightarrow>
             (let r = push_bit 18 (byte c0 AND 0x07) OR push_bit 12 (byte c1 AND 0x3F)
                        OR push_bit 6 (byte c2 AND 0x3F) OR (byte c3 AND 0x3F)
              in if isCont c1 \<and> isCont c2 \<and> isCont c3 \<and> 0xFFFF < r \<and> r \<le> 0x10FFFF
                 then (r, 4) else (RuneError, 1))
         | _ \<Rightarrow> (RuneError, 1))
      else (RuneError, 1))"

text \<open>
  The conversion \<^verbatim>\<open>string(r)\<close> of a rune (\<^verbatim>\<open>runtime.encoderune\<close>): the UTF-8 encoding
  of \<open>r\<close>, and that of \<^verbatim>\<open>RuneError\<close> when \<open>r\<close> is negative, above \<^verbatim>\<open>0x10FFFF\<close> or a
  surrogate half. \<^verbatim>\<open>byte(x)\<close> keeps the low eight bits, as \<^const>\<open>char_of\<close> does.
\<close>

definition encode3 :: "rune \<Rightarrow> string" where
  "encode3 r = [char_of (0xE0 OR drop_bit 12 r),
                char_of (0x80 OR (drop_bit 6 r AND 0x3F)),
                char_of (0x80 OR (r AND 0x3F))]"

definition runeToString :: "rune \<Rightarrow> string" where
  "runeToString r =
     (if 0 \<le> r \<and> r \<le> 0x7F then [char_of r]
      else if 0 \<le> r \<and> r \<le> 0x7FF then
        [char_of (0xC0 OR drop_bit 6 r), char_of (0x80 OR (r AND 0x3F))]
      else if r < 0 \<or> 0x10FFFF < r \<or> (0xD800 \<le> r \<and> r \<le> 0xDFFF) then encode3 RuneError
      else if r \<le> 0xFFFF then encode3 r
      else [char_of (0xF0 OR drop_bit 18 r),
            char_of (0x80 OR (drop_bit 12 r AND 0x3F)),
            char_of (0x80 OR (drop_bit 6 r AND 0x3F)),
            char_of (0x80 OR (r AND 0x3F))])"

section \<open>Letter case\<close>

text \<open>
  \<^verbatim>\<open>unicode.ToLower\<close>: ASCII is handled in the function itself; every other rune goes
  through the case tables of the \<^verbatim>\<open>unicode\<close> package, \<^verbatim>\<open>unicode.To(LowerCase, r)\<close>. The
  tables belong to the Go distribution, so that lookup is the parameter \<open>lower\<close>.
\<close>

definition ToLower :: "(rune \<Rightarrow> rune) \<Rightarrow> rune \<Rightarrow> rune" where
  "ToLower lower r =
     (if r \<le> 0x7F then (if 0x41 \<le> r \<and> r \<le> 0x5A then r + (0x61 - 0x41) else r)
      else lower r)"

text \<open>
  The part of the lower-case table for the Latin-1 letters, U+00C0 to U+00DE without the
  multiplication sign U+00D7, each 32 below its lower-case form. It stands for the
  table wherever a statement needs a concrete one.
\<close>

definition latin1Lower :: "rune \<Rightarrow> rune" where
  "latin1Lower r = (if 0xC0 \<le> r \<and> r \<le> 0xDE \<and> r \<noteq> 0xD7 then r + 32 else r)"

section \<open>The name transform\<close>

text \<open>
  \<^verbatim>\<open>
  func toLowerFirst(s string) string {
          for i, v := range s {
                  return string(unicode.ToLower(v)) + s[i+1:]
          }
          return ""
  }
  \<close>
  The loop body returns in its first iteration, where \<open>i = 0\<close> and \<open>v\<close> is the rune
  decoded at the start of \<open>s\<close>; \<^verbatim>\<open>s[i+1:]\<close> is then \<open>s\<close> without its first byte.
\<close>

definition toLowerFirst :: "(rune \<Rightarrow> rune) \<Rightarrow> string \<Rightarrow> string" where
  "toLowerFirst lower s =
     (case s of
        [] \<Rightarrow> []
      | _ # _ \<Rightarrow> runeToString (ToLower lower (fst (DecodeRuneInString s))) @ drop (0 + 1) s)"

text \<open>
  \<^verbatim>\<open>unicode.IsUpper\<close>: Latin-1 is decided by the property table in the function's own
  package file (upper-case letters are \<^verbatim>\<open>A-Z\<close>, U+00C0 to U+00D6 and U+00D8 to U+00DE);
  every other rune goes through the range table \<^verbatim>\<open>unicode.Upper\<close>, the parameter
  \<open>upper\<close>. \<^verbatim>\<open>ast.IsExported\<close> decodes the first rune of the name and asks \<^verbatim>\<open>IsUpper\<close>.
\<close>

definition IsUpper :: "(rune \<Rightarrow> bool) \<Rightarrow> rune \<Rightarrow> bool" where
  "IsUpper upper r =
     (if 0 \<le> r \<and> r \<le> 0xFF
      then (0x41 \<le> r \<and> r \<le> 0x5A) \<or> (0xC0 \<le> r \<and> r \<le> 0xD6) \<or> (0xD8 \<le> r \<and> r \<le> 0xDE)
      else upper r)"

definition IsExported :: "(rune \<Rightarrow> bool) \<Rightarrow> string \<Rightarrow> bool" where
  "IsExported upper name = IsUpper upper (fst (DecodeRuneInString name))"

text \<open>
  The part of the upper-case table for the Greek capitals, U+0391 to U+03A9 without the
  unassigned U+03A2; the concrete table of the examples.
\<close>

definition greekUpper :: "rune \<Rightarrow> bool" where
  "greekUpper r = (0x391 \<le> r \<and> r \<le> 0x3A9 \<and> r \<noteq> 0x3A2)"

section \<open>Library functions on strings\<close>

definition Contains :: "string \<Rightarrow> string \<Rightarrow> bool" where
  \<comment> \<open>\<^verbatim>\<open>strings.Contains(s, substr)\<close>: \<open>substr\<close> occurs in \<open>s\<close> as a contiguous block.\<close>
  "Contains s substr = sublist substr s"

text \<open>
  \<^verbatim>\<open>strings.Split(s, sep)\<close> for a separator of one byte (the program only splits at
  \<^verbatim>\<open>","\<close>): the pieces between the separators, so the empty string gives one empty piece.
  \<open>cur\<close> is the piece being read.
\<close>

fun splitFrom :: "char \<Rightarrow> string \<Rightarrow> string \<Rightarrow> string list" where
  "splitFrom sep cur [] = [cur]"
| "splitFrom sep cur (c # cs) =
     (if c = sep then cur # splitFrom sep [] cs else splitFrom sep (cur @ [c]) cs)"

definition Split :: "string \<Rightarrow> char \<Rightarrow> string list" where
  "Split s sep = splitFrom sep [] s"

text \<open>\<^verbatim>\<open>strconv.Itoa\<close>, which is also the verb \<^verbatim>\<open>%d\<close> of \<^verbatim>\<open>fmt\<close> on an \<^verbatim>\<open>int\<close>.\<close>

fun digits :: "nat \<Rightarrow> string" where
  "digits n =
     (if n < 10 then [char_of (48 + n)] else digits (n div 10) @ [char_of (48 + n mod 10)])"

definition Itoa :: "int \<Rightarrow> string" where
  "Itoa i = (if i < 0 then CHR ''-'' # digits (nat (- i)) else digits (nat i))"

section \<open>The error classifier\<close>

text \<open>
  \<^verbatim>\<open>
  func prettyError(s string) string {
          switch {
          case strings.Contains(s, "breaking references"):
                  return "would break package clients"
          case strings.Contains(s, "no identifier at this position"):
                  return "internal error: invalid position"
          case strings.Contains(s, "not a valid identifier"):
                  return "internal error: invalid identifier"
          case strings.Contains(s, "would conflict with this method"):
                  return "symbols with unexported name form already exists"
          case strings.Contains(s, "no longer assignable to interface"):
                  return "would breaks interface assignability"
          default:
                  fmt.Println("unknown error: ", s)
                  return "unknown error"
          }
  }
  \<close>
  The result is the returned string paired with what the call writes to standard output.
  \<^verbatim>\<open>fmt.Println\<close> puts a space between its operands and a newline at the end.
\<close>

definition prettyError :: "string \<Rightarrow> string \<times> string" where
  "prettyError s =
     (if Contains s ''breaking references'' then (''would break package clients'', [])
      else if Contains s ''no identifier at this position'' then
        (''internal error: invalid position'', [])
      else if Contains s ''not a valid identifier'' then
        (''internal error: invalid identifier'', [])
      else if Contains s ''would conflict with this method'' then
        (''symbols with unexported name form already exists'', [])
      else if Contains s ''no longer assignable to interface'' then
        (''would breaks interface assignability'', [])
      else (''unknown error'', ''unknown error: '' @ '' '' @ s @ [CHR 0x0A]))"

section \<open>Source positions and syntax trees\<close>

text \<open>
  \<^verbatim>\<open>token.Pos\<close> is an integer; \<^verbatim>\<open>token.Position\<close> is the resolved position, printed by
  its \<^verbatim>\<open>String\<close> method as \<^verbatim>\<open>file:line:column\<close>, \<^verbatim>\<open>line:column\<close>, \<^verbatim>\<open>file\<close> or
  \<^verbatim>\<open>-\<close>.
\<close>

type_synonym Pos = int

record Position =
  Filename :: string
  Offset :: int
  Line :: int
  Column :: int

definition PositionString :: "Position \<Rightarrow> string" where
  "PositionString pos =
     (let s0 = Filename pos;
          s1 = (if 0 < Line pos
                then (if s0 \<noteq> [] then s0 @ '':'' else s0) @ Itoa (Line pos)
                       @ (if Column pos \<noteq> 0 then '':'' @ Itoa (Column pos) else [])
                else s0)
      in if s1 = [] then ''-'' else s1)"

text \<open>
  The part of \<^verbatim>\<open>go/ast\<close> the collector can meet. A function declaration carries its
  receiver (present for a method) and its body; a body is a list of statements, and a
  statement may hold a declaration of its own, as may a function literal among the
  values of a value specification.
\<close>

record Ident =
  NamePos :: Pos
  Name :: string

datatype Spec =
    ImportSpec
  | ValueSpec "Ident list" "Expr list"
  | TypeSpec Ident
and Decl =
    BadDecl
  | GenDecl "Spec list"
  | FuncDecl "Ident option" Ident "Stmt list"
and Stmt =
    DeclStmt Decl
  | BlockStmt "Stmt list"
  | ExprStmt Expr
  | OtherStmt
and Expr =
    FuncLit "Stmt list"
  | OtherExpr

record File =
  Package :: Pos
  Decls :: "Decl list"

record Package =
  Syntax :: "File list"

section \<open>The linter\<close>

text \<open>
  A Go map variable is either \<^verbatim>\<open>nil\<close> or a map: reading a \<^verbatim>\<open>nil\<close> map gives the zero
  value, writing to it panics. The three maps of the linter are \<^verbatim>\<open>nil\<close> until \<^verbatim>\<open>init\<close>
  makes them. \<open>fset\<close> is the method \<^verbatim>\<open>Position\<close> of the file set, which belongs to
  \<^verbatim>\<open>go/token\<close>.
\<close>

datatype panic = AssignToNilMap

type_synonym ('k, 'v) gomap = "('k \<rightharpoonup> 'v) option"

definition lookupBool :: "(string, bool) gomap \<Rightarrow> string \<Rightarrow> bool" where
  "lookupBool m k =
     (case m of None \<Rightarrow> False | Some f \<Rightarrow> (case f k of None \<Rightarrow> False | Some b \<Rightarrow> b))"

definition assign :: "('k, 'v) gomap \<Rightarrow> 'k \<Rightarrow> 'v \<Rightarrow> panic + ('k, 'v) gomap" where
  "assign m k v = (case m of None \<Rightarrow> Inl AssignToNilMap | Some f \<Rightarrow> Inr (Some (f(k \<mapsto> v))))"

record linter =
  fset :: "Pos \<Rightarrow> Position"
  pkgs :: "Package list"
  flags_targets :: "string list"
  flags_verbose :: bool
  flags_unexport :: string
  flags_skip :: string
  unexport :: "(string, bool) gomap"
  skip :: "(string, bool) gomap"
  symbols :: "Ident list"
  success :: "(string, string) gomap"

definition zeroLinter :: linter where
  \<comment> \<open>\<^verbatim>\<open>var l linter\<close>. The file set is \<^verbatim>\<open>nil\<close> until \<^verbatim>\<open>loadTargets\<close> makes one, and no
      step reads it before; in its place stands a file set that knows no file.\<close>
  "zeroLinter =
     \<lparr>fset = (\<lambda>p. \<lparr>Filename = [], Offset = 0, Line = 0, Column = 0\<rparr>), pkgs = [],
      flags_targets = [], flags_verbose = False, flags_unexport = [], flags_skip = [],
      unexport = None, skip = None, symbols = [], success = None\<rparr>"

definition init :: "linter \<Rightarrow> linter" where
  "init l = l\<lparr>unexport := Some Map.empty, skip := Some Map.empty, success := Some Map.empty\<rparr>"

text \<open>
  \<^verbatim>\<open>
  for _, sym := range strings.Split(l.flags.unexport, ",") {
          l.unexport[sym] = true
  }
  \<close>
  and the same for \<^verbatim>\<open>skip\<close>. \<open>markAll\<close> is one such loop. The values of the four flags
  are what \<^verbatim>\<open>flag.Parse\<close> has read from the command line.
\<close>

fun markAll :: "(string, bool) gomap \<Rightarrow> string list \<Rightarrow> panic + (string, bool) gomap" where
  "markAll m [] = Inr m"
| "markAll m (symb # symbs) =
     (case assign m symb True of Inl e \<Rightarrow> Inl e | Inr m' \<Rightarrow> markAll m' symbs)"

definition parseFlags :: "bool \<Rightarrow> string \<Rightarrow> string \<Rightarrow> string list \<Rightarrow> linter \<Rightarrow> panic + linter" where
  "parseFlags v u s targets l =
     (let l1 = l\<lparr>flags_verbose := v, flags_unexport := u, flags_skip := s,
                 flags_targets := targets\<rparr>
      in case markAll (unexport l1) (Split (flags_unexport l1) CHR '','') of
           Inl e \<Rightarrow> Inl e
         | Inr m \<Rightarrow>
             (case markAll (skip l1) (Split (flags_skip l1) CHR '','') of
                Inl e \<Rightarrow> Inl e
              | Inr m' \<Rightarrow> Inr (l1\<lparr>unexport := m, skip := m'\<rparr>)))"

subsection \<open>The symbol collector\<close>

text \<open>
  \<^verbatim>\<open>
  func (l *linter) collectSym(sym *ast.Ident) {
          if l.unexport != nil || l.unexport[sym.Name] {
                  if !l.skip[sym.Name] {
                          l.symbols = append(l.symbols, sym)
                  }
          }
  }
  \<close>
\<close>

definition collectSym :: "Ident \<Rightarrow> linter \<Rightarrow> linter" where
  "collectSym symb l =
     (if unexport l \<noteq> None \<or> lookupBool (unexport l) (Name symb) then
        (if \<not> lookupBool (skip l) (Name symb) then l\<lparr>symbols := symbols l @ [symb]\<rparr> else l)
      else l)"

text \<open>
  \<^verbatim>\<open>collectFileSymbols\<close> switches on the kind of each declaration of the file and of each
  specification of a general declaration; the loops over slices are \<^const>\<open>fold\<close>.
\<close>

fun collectSpec :: "Spec \<Rightarrow> linter \<Rightarrow> linter" where
  "collectSpec (ValueSpec names vals) l = fold collectSym names l"
| "collectSpec (TypeSpec name) l = collectSym name l"
| "collectSpec ImportSpec l = l"

fun collectDecl :: "Decl \<Rightarrow> linter \<Rightarrow> linter" where
  "collectDecl (GenDecl specs) l = fold collectSpec specs l"
| "collectDecl (FuncDecl recv name body) l = collectSym name l"
| "collectDecl BadDecl l = l"

definition collectFileSymbols :: "File \<Rightarrow> linter \<Rightarrow> linter" where
  "collectFileSymbols f l = fold collectDecl (Decls f) l"

text \<open>
  \<^verbatim>\<open>
  for _, pkg := range l.pkgs {
          for _, f := range pkg.Syntax {
                  if l.fset.Position(f.Pos()).Filename == "" {
                          continue
                  }
                  l.collectFileSymbols(f)
          }
  }
  \<close>
  \<^verbatim>\<open>f.Pos()\<close> is the position of the \<^verbatim>\<open>package\<close> keyword.
\<close>

definition collectFile :: "File \<Rightarrow> linter \<Rightarrow> linter" where
  "collectFile f l =
     (if Filename (fset l (Package f)) = [] then l else collectFileSymbols f l)"

definition collectSymbols :: "linter \<Rightarrow> linter" where
  "collectSymbols l = fold (\<lambda>pkg. fold collectFile (Syntax pkg)) (pkgs l) l"

subsection \<open>The rename invoker\<close>

text \<open>
  What the program does to the world outside it: the bytes written to standard output,
  and the runs of \<^verbatim>\<open>gorename\<close>. The renamer is a parameter: from the state of the world it
  works on (the source files on disk) and its two arguments it gives its combined
  output, whether it failed (\<^verbatim>\<open>err != nil\<close>), and the new state. Each call of
  \<^verbatim>\<open>tryUnexport\<close> is logged with its arguments, the arguments it passed to the renamer and
  the outcome.
\<close>

record attempt =
  aPos :: Pos
  aName :: string
  aOffset :: string
  aTo :: string
  aOut :: string
  aFailed :: bool

record 'w world =
  stdout :: string
  attempts :: "attempt list"
  disk :: 'w

definition writeOut :: "string \<Rightarrow> 'w world \<Rightarrow> 'w world" where
  "writeOut text w = w\<lparr>stdout := stdout w @ text\<rparr>"

type_synonym 'w renamer = "'w \<Rightarrow> string \<Rightarrow> string \<Rightarrow> (string \<times> bool) \<times> 'w"

text \<open>
  \<^verbatim>\<open>
  func (l *linter) tryUnexport(pos token.Pos, exported string) string {
          posn := l.fset.Position(pos)
          offset := fmt.Sprintf("%s:#%d", posn.Filename, posn.Offset)
          unexported := toLowerFirst(exported)
          out, err := exec.Command("gorename", "-offset", offset, "-to", unexported).CombinedOutput()
          key := fmt.Sprintf("%s/%s", posn, exported)

          if err != nil {
                  return "impossible: " + prettyError(string(out))
          }
          l.success[key] = fmt.Sprintf("%s -> %s", exported, unexported)
          return "success"
  }
  \<close>
\<close>

definition renameOffset :: "Position \<Rightarrow> string" where
  "renameOffset posn = Filename posn @ '':#'' @ Itoa (Offset posn)"

definition successKey :: "Position \<Rightarrow> string \<Rightarrow> string" where
  "successKey posn exported = PositionString posn @ ''/'' @ exported"

definition tryUnexport ::
  "(rune \<Rightarrow> rune) \<Rightarrow> 'w renamer \<Rightarrow> Pos \<Rightarrow> string \<Rightarrow> linter \<Rightarrow> 'w world
     \<Rightarrow> (panic + string \<times> linter) \<times> 'w world" where
  "tryUnexport lower rename pos exported l w =
     (let posn = fset l pos;
          offset = renameOffset posn;
          unexported = toLowerFirst lower exported;
          res = rename (disk w) offset unexported;
          out = fst (fst res); err = snd (fst res);
          w1 = w\<lparr>attempts := attempts w @
                   [\<lparr>aPos = pos, aName = exported, aOffset = offset, aTo = unexported,
                     aOut = out, aFailed = err\<rparr>],
                 disk := snd res\<rparr>;
          key = successKey posn exported
      in if err then
           (Inr (''impossible: '' @ fst (prettyError out), l),
            writeOut (snd (prettyError out)) w1)
         else
           (case assign (success l) key (exported @ '' -> '' @ unexported) of
              Inl e \<Rightarrow> (Inl e, w1)
            | Inr m \<Rightarrow> (Inr (''success'', l\<lparr>success := m\<rparr>), w1)))"

text \<open>
  \<^verbatim>\<open>
  for _, sym := range l.symbols {
          if ast.IsExported(sym.Name) {
                  fmt.Printf("trying to unexport %s... ", sym.Name)
                  status := l.tryUnexport(sym.Pos(), sym.Name)
                  fmt.Println("(" + status + ")")
          }
  }
  \<close>
  The loop runs over the symbols as they are when it starts. A panic ends it; what the
  program has done to the world by then stays done.
\<close>

definition tryingLine :: "string \<Rightarrow> string" where
  \<comment> \<open>\<^verbatim>\<open>fmt.Printf("trying to unexport %s... ", sym.Name)\<close>\<close>
  "tryingLine name = ''trying to unexport '' @ name @ ''... ''"

definition statusLine :: "string \<Rightarrow> string" where
  \<comment> \<open>\<^verbatim>\<open>fmt.Println("(" + status + ")")\<close>\<close>
  "statusLine status = ''('' @ status @ '')'' @ [CHR 0x0A]"

fun unexportLoop ::
  "(rune \<Rightarrow> rune) \<Rightarrow> (rune \<Rightarrow> bool) \<Rightarrow> 'w renamer \<Rightarrow> Ident list \<Rightarrow> linter \<Rightarrow> 'w world
     \<Rightarrow> (panic + linter) \<times> 'w world" where
  "unexportLoop lower upper rename [] l w = (Inr l, w)"
| "unexportLoop lower upper rename (symb # symbs) l w =
     (if IsExported upper (Name symb) then
        (case tryUnexport lower rename (NamePos symb) (Name symb) l
                (writeOut (tryingLine (Name symb)) w) of
           (Inl e, w') \<Rightarrow> (Inl e, w')
         | (Inr (status, l'), w') \<Rightarrow>
             unexportLoop lower upper rename symbs l' (writeOut (statusLine status) w'))
      else unexportLoop lower upper rename symbs l w)"

definition unexportSymbols ::
  "(rune \<Rightarrow> rune) \<Rightarrow> (rune \<Rightarrow> bool) \<Rightarrow> 'w renamer \<Rightarrow> linter \<Rightarrow> 'w world
     \<Rightarrow> (panic + linter) \<times> 'w world" where
  "unexportSymbols lower upper rename l w = unexportLoop lower upper rename (symbols l) l w"

subsection \<open>The steps in the order of \<^verbatim>\<open>main\<close>\<close>

text \<open>
  \<^verbatim>\<open>init\<close>, \<^verbatim>\<open>parseFlags\<close>, \<^verbatim>\<open>loadTargets\<close>, \<^verbatim>\<open>collectSymbols\<close>, \<^verbatim>\<open>unexportSymbols\<close>. Loading
  is the work of \<^verbatim>\<open>go/packages\<close>: when it succeeds it leaves a file set and a list of
  packages in the linter, and these are given here.
\<close>

definition steps ::
  "(rune \<Rightarrow> rune) \<Rightarrow> (rune \<Rightarrow> bool) \<Rightarrow> 'w renamer \<Rightarrow> bool \<Rightarrow> string \<Rightarrow> string \<Rightarrow> string list
     \<Rightarrow> (Pos \<Rightarrow> Position) \<Rightarrow> Package list \<Rightarrow> 'w world \<Rightarrow> (panic + linter) \<times> 'w world" where
  "steps lower upper rename v u s targets fs ps w =
     (case parseFlags v u s targets (init zeroLinter) of
        Inl e \<Rightarrow> (Inl e, w)
      | Inr l \<Rightarrow> unexportSymbols lower upper rename (collectSymbols (l\<lparr>fset := fs, pkgs := ps\<rparr>)) w)"

section \<open>Reference definitions\<close>

text \<open>
  The name transform as the specification words it: the first code point lower-cased,
  the rest of the name, from the end of that code point on, unchanged.
\<close>

definition lowerFirstCodePoint :: "(rune \<Rightarrow> rune) \<Rightarrow> string \<Rightarrow> string" where
  "lowerFirstCodePoint lower s =
     (case s of
        [] \<Rightarrow> []
      | _ # _ \<Rightarrow> runeToString (ToLower lower (fst (DecodeRuneInString s)))
                 @ drop (snd (DecodeRuneInString s)) s)"

definition asciiLower :: "char \<Rightarrow> char" where
  "asciiLower c = (if 0x41 \<le> byte c \<and> byte c \<le> 0x5A then char_of (byte c + 0x20) else c)"

definition asciiLetter :: "rune \<Rightarrow> bool" where
  "asciiLetter r = ((0x41 \<le> r \<and> r \<le> 0x5A) \<or> (0x61 \<le> r \<and> r \<le> 0x7A))"

text \<open>
  The categories of the specification, the text the program shows for each, and the
  classification as the specification words it: the first entry, in the fixed order,
  whose substring occurs in the diagnostic.
\<close>

datatype Category =
    WouldBreakClients
  | InvalidPosition
  | InvalidIdentifier
  | NameCollision
  | InterfaceAssignabilityBroken
  | Unknown

fun categoryText :: "Category \<Rightarrow> string" where
  "categoryText WouldBreakClients = ''would break package clients''"
| "categoryText InvalidPosition = ''internal error: invalid position''"
| "categoryText InvalidIdentifier = ''internal error: invalid identifier''"
| "categoryText NameCollision = ''symbols with unexported name form already exists''"
| "categoryText InterfaceAssignabilityBroken = ''would breaks interface assignability''"
| "categoryText Unknown = ''unknown error''"

definition knownDiagnostics :: "(string \<times> Category) list" where
  "knownDiagnostics =
     [(''breaking references'', WouldBreakClients),
      (''no identifier at this position'', InvalidPosition),
      (''not a valid identifier'', InvalidIdentifier),
      (''would conflict with this method'', NameCollision),
      (''no longer assignable to interface'', InterfaceAssignabilityBroken)]"

definition classify :: "string \<Rightarrow> Category" where
  "classify s =
     (case find (\<lambda>d. Contains s (fst d)) knownDiagnostics of
        Some d \<Rightarrow> snd d
      | None \<Rightarrow> Unknown)"

text \<open>
  The identifiers a file declares at its top level, in the order of the file, and the
  file with every function body and every initialising value taken away.
\<close>

fun specNames :: "Spec \<Rightarrow> Ident list" where
  "specNames (ValueSpec names vals) = names"
| "specNames (TypeSpec name) = [name]"
| "specNames ImportSpec = []"

fun declNames :: "Decl \<Rightarrow> Ident list" where
  "declNames (GenDecl specs) = concat (map specNames specs)"
| "declNames (FuncDecl recv name body) = [name]"
| "declNames BadDecl = []"

definition topLevelIdents :: "File \<Rightarrow> Ident list" where
  "topLevelIdents f = concat (map declNames (Decls f))"

fun signatureOfSpec :: "Spec \<Rightarrow> Spec" where
  "signatureOfSpec (ValueSpec names vals) = ValueSpec names []"
| "signatureOfSpec (TypeSpec name) = TypeSpec name"
| "signatureOfSpec ImportSpec = ImportSpec"

fun signatureOfDecl :: "Decl \<Rightarrow> Decl" where
  "signatureOfDecl (GenDecl specs) = GenDecl (map signatureOfSpec specs)"
| "signatureOfDecl (FuncDecl recv name body) = FuncDecl recv name []"
| "signatureOfDecl BadDecl = BadDecl"

definition signatureOfFile :: "File \<Rightarrow> File" where
  "signatureOfFile f = f\<lparr>Decls := map signatureOfDecl (Decls f)\<rparr>"

definition signatureOfPackage :: "Package \<Rightarrow> Package" where
  "signatureOfPackage p = p\<lparr>Syntax := map signatureOfFile (Syntax p)\<rparr>"

text \<open>
  The files the collector reads and what it reads in each, the test of \<^verbatim>\<open>collectSym\<close>
  as a predicate, the success map after a logged attempt, and the attempts in terms of
  the symbol they are made for.
\<close>

definition sourceFiles :: "linter \<Rightarrow> File list" where
  "sourceFiles l = filter (\<lambda>f. Filename (fset l (Package f)) \<noteq> []) (concat (map Syntax (pkgs l)))"

definition readFile :: "(Pos \<Rightarrow> Position) \<Rightarrow> File \<Rightarrow> Ident list" where
  "readFile fs f = (if Filename (fs (Package f)) = [] then [] else topLevelIdents f)"

definition retained :: "linter \<Rightarrow> Ident \<Rightarrow> bool" where
  "retained l symb =
     ((unexport l \<noteq> None \<or> lookupBool (unexport l) (Name symb))
      \<and> \<not> lookupBool (skip l) (Name symb))"

definition recordAttempt :: "(Pos \<Rightarrow> Position) \<Rightarrow> attempt \<Rightarrow> (string \<rightharpoonup> string) \<Rightarrow> (string \<rightharpoonup> string)" where
  "recordAttempt fs a m =
     (if aFailed a then m
      else m(successKey (fs (aPos a)) (aName a) \<mapsto> aName a @ '' -> '' @ aTo a))"

definition attemptOf :: "(rune \<Rightarrow> rune) \<Rightarrow> (Pos \<Rightarrow> Position) \<Rightarrow> Ident \<Rightarrow> Pos \<times> string \<times> string \<times> string" where
  "attemptOf lower fs symb =
     (NamePos symb, Name symb, renameOffset (fs (NamePos symb)), toLowerFirst lower (Name symb))"

definition newAttempts :: "'w world \<Rightarrow> 'w world \<Rightarrow> attempt list" where
  "newAttempts w w' = drop (length (attempts w)) (attempts w')"

definition attemptBy ::
  "(rune \<Rightarrow> rune) \<Rightarrow> 'w renamer \<Rightarrow> Pos \<Rightarrow> string \<Rightarrow> linter \<Rightarrow> 'w world \<Rightarrow> attempt" where
  "attemptBy lower rename pos exported l w =
     \<lparr>aPos = pos, aName = exported, aOffset = renameOffset (fset l pos),
      aTo = toLowerFirst lower exported,
      aOut = fst (fst (rename (disk w) (renameOffset (fset l pos)) (toLowerFirst lower exported))),
      aFailed = snd (fst (rename (disk w) (renameOffset (fset l pos)) (toLowerFirst lower exported)))\<rparr>"

definition attemptArgs :: "attempt \<Rightarrow> Pos \<times> string \<times> string \<times> string" where
  "attemptArgs a = (aPos a, aName a, aOffset a, aTo a)"

text \<open>
  The renamer run once for each symbol of a list, in the order of the list, each run on
  the disk that the run before has left: the attempts this makes and the disk at the end.
\<close>

fun renamerRuns ::
  "(rune \<Rightarrow> rune) \<Rightarrow> 'w renamer \<Rightarrow> (Pos \<Rightarrow> Position) \<Rightarrow> Ident list \<Rightarrow> 'w \<Rightarrow> attempt list \<times> 'w" where
  "renamerRuns lower rename fs [] d = ([], d)"
| "renamerRuns lower rename fs (symb # symbs) d =
     (let offset = renameOffset (fs (NamePos symb));
          unexported = toLowerFirst lower (Name symb);
          res = rename d offset unexported;
          rest = renamerRuns lower rename fs symbs (snd res)
      in (\<lparr>aPos = NamePos symb, aName = Name symb, aOffset = offset, aTo = unexported,
           aOut = fst (fst res), aFailed = snd (fst res)\<rparr> # fst rest,
          snd rest))"

section \<open>A sample run\<close>

text \<open>
  The scenario of the specification: a file \<^verbatim>\<open>a.go\<close> declares the type \<^verbatim>\<open>Foo\<close>, the
  variables \<^verbatim>\<open>bar\<close> and \<^verbatim>\<open>Baz\<close> and the function \<^verbatim>\<open>Run\<close>. The body of \<^verbatim>\<open>Run\<close> declares
  \<^verbatim>\<open>Inner\<close> in a block, and a function literal among the values of the variables
  declares \<^verbatim>\<open>Lit\<close>. A second file, which declares \<^verbatim>\<open>Ghost\<close>, has no path. The renamer refuses \<^verbatim>\<open>baz\<close>, because \<^verbatim>\<open>Baz\<close> is used by
  another package, refuses \<^verbatim>\<open>run\<close> for a reason the classifier does not know, and
  otherwise notes the rename on the disk.
\<close>

definition sampleFset :: "Pos \<Rightarrow> Position" where
  "sampleFset p =
     (if 1 \<le> p \<and> p \<le> 100
      then \<lparr>Filename = ''a.go'', Offset = p - 1, Line = 1, Column = p\<rparr>
      else \<lparr>Filename = [], Offset = 0, Line = 0, Column = 0\<rparr>)"

definition sampleFile :: File where
  "sampleFile =
     \<lparr>Package = 1,
      Decls =
        [GenDecl [ImportSpec],
         GenDecl [TypeSpec \<lparr>NamePos = 20, Name = ''Foo''\<rparr>],
         GenDecl [ValueSpec [\<lparr>NamePos = 30, Name = ''bar''\<rparr>, \<lparr>NamePos = 35, Name = ''Baz''\<rparr>]
                    [OtherExpr, FuncLit [DeclStmt (GenDecl [TypeSpec \<lparr>NamePos = 40, Name = ''Lit''\<rparr>])]]],
         FuncDecl None \<lparr>NamePos = 60, Name = ''Run''\<rparr>
           [OtherStmt,
            BlockStmt [DeclStmt (GenDecl [ValueSpec [\<lparr>NamePos = 70, Name = ''Inner''\<rparr>] []])]]]\<rparr>"

definition pathlessFile :: File where
  "pathlessFile = \<lparr>Package = 0, Decls = [GenDecl [TypeSpec \<lparr>NamePos = 0, Name = ''Ghost''\<rparr>]]\<rparr>"

definition samplePkgs :: "Package list" where
  "samplePkgs = [\<lparr>Syntax = [pathlessFile, sampleFile]\<rparr>]"

definition sampleRename :: "(string \<times> string) list renamer" where
  "sampleRename d offset to =
     (if to = ''baz'' then
        ((''renaming this var Baz to baz would make it unexported, breaking references from package client; no longer assignable to interface'', True), d)
      else if to = ''run'' then ((''exit status 2'', True), d)
      else (([], False), d @ [(offset, to)]))"

definition sampleLinter :: "string \<Rightarrow> string \<Rightarrow> linter" where
  \<comment> \<open>The linter after \<^verbatim>\<open>init\<close>, \<^verbatim>\<open>parseFlags\<close> with the two name lists, and loading.\<close>
  "sampleLinter u s =
     (case parseFlags False u s [] (init zeroLinter) of
        Inr l \<Rightarrow> l\<lparr>fset := sampleFset, pkgs := samplePkgs\<rparr>
      | Inl e \<Rightarrow> zeroLinter)"

definition sampleWorld :: "(string \<times> string) list world" where
  "sampleWorld = \<lparr>stdout = [], attempts = [], disk = []\<rparr>"

text \<open>
  A renamer that refuses every rename and counts its runs on the disk.
\<close>

definition countingRename :: "nat renamer" where
  "countingRename d offset to = ((''exit status 1'', True), Suc d)"

definition countingWorld :: "nat world" where
  "countingWorld = \<lparr>stdout = [], attempts = [], disk = 0\<rparr>"

section \<open>The name transform: properties\<close>

lemma byte_nonneg: "0 \<le> byte c"
  unfolding byte_def by (metis of_nat_of_char of_nat_0_le_iff)

lemma char_of_byte: "char_of (byte c) = c"
  by (simp add: byte_def)

lemma decode_width:
  assumes "s \<noteq> []"
  shows "1 \<le> snd (DecodeRuneInString s) \<and> snd (DecodeRuneInString s) \<le> length s"
  using assms by (cases s) (auto simp: Let_def split: list.splits)

lemma decode_small:
  assumes "fst (DecodeRuneInString s) \<le> 0x7F"
  shows "\<exists>c cs. s = c # cs \<and> byte c < 0x80"
  using assms
  by (cases s) (auto simp: RuneError_def Let_def split: if_splits list.splits)

lemma runeToString_nonempty: "runeToString r \<noteq> []"
  by (simp add: runeToString_def encode3_def)

lemma toLowerFirst_ascii:
  "byte c < 0x80 \<Longrightarrow> toLowerFirst lower (c # cs) = asciiLower c # cs"
  by (simp add: toLowerFirst_def ToLower_def runeToString_def asciiLower_def byte_nonneg
      char_of_byte)

lemma byte_asciiLower:
  assumes "byte c < 0x80"
  shows "byte (asciiLower c) < 0x80" and "asciiLower (asciiLower c) = asciiLower c"
  using assms byte_nonneg [of c] by (auto simp: asciiLower_def byte_def)

text \<open>
  The program's transform and the transform of the specification agree exactly on the
  names whose first code point takes one byte (ASCII, or a byte that is not the start
  of a valid encoding).
\<close>

lemma toLowerFirst_eq_reference:
  "toLowerFirst lower s = lowerFirstCodePoint lower s
     \<longleftrightarrow> s = [] \<or> snd (DecodeRuneInString s) = 1"
proof (cases s)
  case Nil
  then show ?thesis by (simp add: toLowerFirst_def lowerFirstCodePoint_def)
next
  case (Cons c cs)
  let ?w = "snd (DecodeRuneInString s)"
  have w: "1 \<le> ?w" "?w \<le> length s" using decode_width [of s] Cons by simp_all
  have "drop 1 s = drop ?w s \<longleftrightarrow> ?w = 1"
  proof
    assume "drop 1 s = drop ?w s"
    then have "length (drop 1 s) = length (drop ?w s)" by simp
    with w show "?w = 1" by simp
  qed simp
  with Cons show ?thesis by (simp add: toLowerFirst_def lowerFirstCodePoint_def)
qed

text \<open>
  C2. The name \<^verbatim>\<open>Ecole\<close> with an acute accent on its first letter, U+00C9, which UTF-8
  writes in the two bytes \<^verbatim>\<open>C3 89\<close>. The transform lower-cases the code point to U+00E9
  (\<^verbatim>\<open>C3 A9\<close>) and then appends the name from its second byte on, so the continuation
  byte \<^verbatim>\<open>89\<close> of the old first letter stays in the result; the specification asks for
  the lower-cased code point followed by \<^verbatim>\<open>cole\<close>. The name is exported, so the invoker
  does pass it to the transform.
\<close>

theorem toLowerFirst_multibyte_first_code_point:
  "IsExported greekUpper [CHR 0xC3, CHR 0x89, CHR ''c'', CHR ''o'', CHR ''l'', CHR ''e'']
   \<and> toLowerFirst latin1Lower [CHR 0xC3, CHR 0x89, CHR ''c'', CHR ''o'', CHR ''l'', CHR ''e'']
     = [CHR 0xC3, CHR 0xA9, CHR 0x89, CHR ''c'', CHR ''o'', CHR ''l'', CHR ''e'']
   \<and> lowerFirstCodePoint latin1Lower
         [CHR 0xC3, CHR 0x89, CHR ''c'', CHR ''o'', CHR ''l'', CHR ''e'']
     = [CHR 0xC3, CHR 0xA9, CHR ''c'', CHR ''o'', CHR ''l'', CHR ''e'']"
  by (simp add: toLowerFirst_def lowerFirstCodePoint_def ToLower_def latin1Lower_def
      runeToString_def byte_def isCont_def char_of_def IsExported_def IsUpper_def)

text \<open>
  C3, as the specification has it: the transform of the empty name fails. The program
  returns the empty string.
\<close>

theorem toLowerFirst_empty_name: "toLowerFirst latin1Lower [] = []"
  by (simp add: toLowerFirst_def)

text \<open>
  C3, amended: the transform has no error result; it returns the empty string for the
  empty name, and a non-empty string for every non-empty name.
\<close>

theorem toLowerFirst_empty_only:
  "toLowerFirst lower [] = [] \<and> toLowerFirst lower (c # cs) \<noteq> []"
  by (simp add: toLowerFirst_def runeToString_nonempty)

text \<open>
  C10. On a name whose first code point is an ASCII letter the transform is idempotent:
  applying it twice gives what applying it once gives.
\<close>

theorem toLowerFirst_idempotent:
  assumes "asciiLetter (fst (DecodeRuneInString s))"
  shows "toLowerFirst lower (toLowerFirst lower s) = toLowerFirst lower s"
proof -
  from assms have "fst (DecodeRuneInString s) \<le> 0x7F" by (auto simp: asciiLetter_def)
  then obtain c cs where s: "s = c # cs" and c: "byte c < 0x80" using decode_small by blast
  show ?thesis
    using c by (simp add: s toLowerFirst_ascii byte_asciiLower)
qed

theorem toLowerFirst_idempotent_witness:
  "asciiLetter (fst (DecodeRuneInString ''Foo''))
   \<and> toLowerFirst latin1Lower (toLowerFirst latin1Lower ''Foo'') = toLowerFirst latin1Lower ''Foo''
   \<and> toLowerFirst latin1Lower ''Foo'' = ''foo''"
proof -
  have h: "asciiLetter (fst (DecodeRuneInString ''Foo''))"
    by (simp add: asciiLetter_def byte_def)
  have "toLowerFirst latin1Lower ''Foo'' = ''foo''"
    by (simp add: toLowerFirst_def ToLower_def runeToString_def byte_def char_of_def)
  with h toLowerFirst_idempotent [OF h, of latin1Lower] show ?thesis by simp
qed

section \<open>The error classifier: properties\<close>

lemma categoryText_inj: "categoryText c = categoryText c' \<longleftrightarrow> c = c'"
  by (cases c; cases c'; simp)

text \<open>
  C4. The text the classifier returns is that of the first category, in the order
  breaking references, invalid position, invalid identifier, naming collision, interface
  assignability, whose substring occurs in the diagnostic, and that of \<open>Unknown\<close> when
  none occurs; it is the text of exactly one category; and a diagnostic that contains
  \<^verbatim>\<open>breaking references\<close> is classified as \<open>WouldBreakClients\<close> whatever else it
  contains.
\<close>

theorem prettyError_priority:
  "fst (prettyError s) = categoryText (classify s)
   \<and> (\<exists>!c. fst (prettyError s) = categoryText c)
   \<and> (Contains s ''breaking references''
        \<longrightarrow> fst (prettyError s) = categoryText WouldBreakClients)"
proof -
  have eq: "fst (prettyError s) = categoryText (classify s)"
    by (simp add: prettyError_def classify_def knownDiagnostics_def)
  have "\<exists>!c. fst (prettyError s) = categoryText c"
    unfolding eq by (auto simp: categoryText_inj)
  moreover have "Contains s ''breaking references''
        \<longrightarrow> fst (prettyError s) = categoryText WouldBreakClients"
    by (simp add: prettyError_def)
  ultimately show ?thesis using eq by blast
qed

theorem prettyError_priority_witness:
  "Contains ''breaking references; no longer assignable to interface'' ''breaking references''
   \<and> Contains ''breaking references; no longer assignable to interface''
        ''no longer assignable to interface''
   \<and> fst (prettyError ''breaking references; no longer assignable to interface'')
        = ''would break package clients''"
proof -
  let ?s = "''breaking references; no longer assignable to interface''"
  have a: "Contains ?s ''breaking references''"
    by (simp add: Contains_def)
  have b: "Contains ?s ''no longer assignable to interface''"
    unfolding Contains_def by (simp add: sublist_Cons_right)
  from prettyError_priority [of ?s] a
  have "fst (prettyError ?s) = categoryText WouldBreakClients"
    by blast
  with a b show ?thesis by simp
qed

text \<open>
  C8. A diagnostic that contains none of the five substrings is classified as
  \<open>Unknown\<close>, and the classifier writes the diagnostic itself, unchanged, to standard
  output after the words \<^verbatim>\<open>unknown error:\<close>.
\<close>

theorem prettyError_unknown:
  assumes "\<not> Contains s ''breaking references''"
    and "\<not> Contains s ''no identifier at this position''"
    and "\<not> Contains s ''not a valid identifier''"
    and "\<not> Contains s ''would conflict with this method''"
    and "\<not> Contains s ''no longer assignable to interface''"
  shows "prettyError s = (''unknown error'', ''unknown error:  '' @ s @ [CHR 0x0A])
         \<and> classify s = Unknown"
  using assms by (simp add: prettyError_def classify_def knownDiagnostics_def)

theorem prettyError_unknown_witness:
  "prettyError ''exit status 2''
     = (''unknown error'', ''unknown error:  exit status 2'' @ [CHR 0x0A])
   \<and> classify ''exit status 2'' = Unknown"
proof -
  have n: "\<not> Contains ''exit status 2'' ''breaking references''"
    "\<not> Contains ''exit status 2'' ''no identifier at this position''"
    "\<not> Contains ''exit status 2'' ''not a valid identifier''"
    "\<not> Contains ''exit status 2'' ''would conflict with this method''"
    "\<not> Contains ''exit status 2'' ''no longer assignable to interface''"
    unfolding Contains_def by (simp_all add: sublist_Cons_right)
  from prettyError_unknown [OF n] show ?thesis by simp
qed

section \<open>The flags: properties\<close>

text \<open>Once \<^verbatim>\<open>init\<close> has made the maps, \<^verbatim>\<open>parseFlags\<close> cannot panic.\<close>

lemma markAll_made: "\<exists>g. markAll (Some f) ks = Inr (Some g)"
  by (induction ks arbitrary: f) (simp_all add: assign_def)

lemma parseFlags_made:
  assumes "unexport l \<noteq> None" and "skip l \<noteq> None"
  shows "\<exists>mu ms. parseFlags v u s targets l =
     Inr (l\<lparr>flags_verbose := v, flags_unexport := u, flags_skip := s, flags_targets := targets,
            unexport := Some mu, skip := Some ms\<rparr>)"
proof -
  from assms obtain fu fs where l: "unexport l = Some fu" "skip l = Some fs" by auto
  obtain mu where mu: "markAll (Some fu) (Split u CHR '','') = Inr (Some mu)"
    using markAll_made by blast
  obtain ms where ms: "markAll (Some fs) (Split s CHR '','') = Inr (Some ms)"
    using markAll_made by blast
  show ?thesis
    by (rule exI [of _ mu], rule exI [of _ ms]) (simp add: parseFlags_def Let_def l mu ms)
qed

section \<open>The symbol collector: properties\<close>

text \<open>
  Each level of the collector appends to the symbol list the identifiers it reads that
  pass the test of \<^verbatim>\<open>collectSym\<close>, and changes nothing else.
\<close>

lemma retained_symbols [simp]: "retained (l\<lparr>symbols := xs\<rparr>) = retained l"
  by (simp add: retained_def fun_eq_iff)

lemma collectSym_eq: "collectSym symb l = l\<lparr>symbols := symbols l @ filter (retained l) [symb]\<rparr>"
  by (simp add: collectSym_def retained_def)

lemma fold_collect:
  assumes "\<And>x l. step x l = l\<lparr>symbols := symbols l @ filter (retained l) (names (fset l) x)\<rparr>"
  shows "fold step xs l = l\<lparr>symbols := symbols l @ filter (retained l) (concat (map (names (fset l)) xs))\<rparr>"
proof (induction xs arbitrary: l)
  case Nil
  show ?case by simp
next
  case (Cons x xs)
  let ?l1 = "step x l"
  have l1: "?l1 = l\<lparr>symbols := symbols l @ filter (retained l) (names (fset l) x)\<rparr>"
    by (rule assms)
  have "fold step (x # xs) l = fold step xs ?l1" by simp
  also have "\<dots> = ?l1\<lparr>symbols := symbols ?l1 @ filter (retained ?l1) (concat (map (names (fset ?l1)) xs))\<rparr>"
    by (rule Cons.IH)
  also have "\<dots> = l\<lparr>symbols := symbols l @ filter (retained l) (concat (map (names (fset l)) (x # xs)))\<rparr>"
    by (simp add: l1)
  finally show ?case .
qed

lemma collectSpec_eq:
  "collectSpec sp l = l\<lparr>symbols := symbols l @ filter (retained l) (specNames sp)\<rparr>"
proof (cases sp)
  case (ValueSpec names vals)
  then show ?thesis
    using fold_collect [of collectSym "\<lambda>fs x. [x]" names l] by (simp add: collectSym_eq)
qed (simp_all add: collectSym_eq)

lemma collectDecl_eq:
  "collectDecl d l = l\<lparr>symbols := symbols l @ filter (retained l) (declNames d)\<rparr>"
proof (cases d)
  case (GenDecl specs)
  then show ?thesis
    using fold_collect [of collectSpec "\<lambda>fs. specNames" specs l] by (simp add: collectSpec_eq)
qed (simp_all add: collectSym_eq)

lemma collectFileSymbols_eq:
  "collectFileSymbols f l = l\<lparr>symbols := symbols l @ filter (retained l) (topLevelIdents f)\<rparr>"
  using fold_collect [of collectDecl "\<lambda>fs. declNames" "Decls f" l]
  by (simp add: collectFileSymbols_def topLevelIdents_def collectDecl_eq)

lemma collectFile_eq:
  "collectFile f l = l\<lparr>symbols := symbols l @ filter (retained l) (readFile (fset l) f)\<rparr>"
  by (simp add: collectFile_def readFile_def collectFileSymbols_eq)

lemma concat_readFile:
  "concat (map (readFile fs) fs') = concat (map topLevelIdents (filter (\<lambda>f. Filename (fs (Package f)) \<noteq> []) fs'))"
  by (induction fs') (simp_all add: readFile_def)

lemma concat_files:
  "concat (map (\<lambda>pkg. concat (map g (Syntax pkg))) ps) = concat (map g (concat (map Syntax ps)))"
  by (induction ps) simp_all

lemma collectSymbols_eq:
  "collectSymbols l =
     l\<lparr>symbols := symbols l @ filter (retained l) (concat (map topLevelIdents (sourceFiles l)))\<rparr>"
proof -
  have files: "fold collectFile fs' l' =
      l'\<lparr>symbols := symbols l' @ filter (retained l') (concat (map (readFile (fset l')) fs'))\<rparr>" for fs' l'
    by (rule fold_collect) (rule collectFile_eq)
  have "fold (\<lambda>pkg. fold collectFile (Syntax pkg)) ps l' =
      l'\<lparr>symbols := symbols l' @ filter (retained l')
         (concat (map (\<lambda>pkg. concat (map (readFile (fset l')) (Syntax pkg))) ps))\<rparr>"
    for ps :: "Package list" and l'
    by (rule fold_collect [where names = "\<lambda>fs pkg. concat (map (readFile fs) (Syntax pkg))"]) (rule files)
  then have A: "collectSymbols l = l\<lparr>symbols := symbols l @ filter (retained l)
         (concat (map (\<lambda>pkg. concat (map (readFile (fset l)) (Syntax pkg))) (pkgs l)))\<rparr>"
    by (simp only: collectSymbols_def)
  have B: "concat (map (\<lambda>pkg. concat (map (readFile (fset l)) (Syntax pkg))) (pkgs l))
      = concat (map topLevelIdents (sourceFiles l))"
    unfolding sourceFiles_def concat_readFile [symmetric] by (rule concat_files)
  show ?thesis by (simp only: A B)
qed

lemma retained_pkgs [simp]: "retained (l\<lparr>pkgs := ps\<rparr>) = retained l"
  by (simp add: retained_def fun_eq_iff)

text \<open>Taking the bodies and the values away changes no top-level identifier.\<close>

lemma declNames_signature [simp]: "declNames (signatureOfDecl d) = declNames d"
proof (cases d)
  case (GenDecl specs)
  have "specNames (signatureOfSpec sp) = specNames sp" for sp by (cases sp) simp_all
  then show ?thesis by (simp add: GenDecl comp_def)
qed simp_all

lemma topLevelIdents_signature [simp]: "topLevelIdents (signatureOfFile f) = topLevelIdents f"
  by (simp add: topLevelIdents_def signatureOfFile_def comp_def)

lemma sourceFiles_signature:
  "sourceFiles (l\<lparr>pkgs := map signatureOfPackage (pkgs l)\<rparr>) = map signatureOfFile (sourceFiles l)"
proof -
  have "concat (map Syntax (map signatureOfPackage ps)) = map signatureOfFile (concat (map Syntax ps))" for ps
    by (induction ps) (simp_all add: signatureOfPackage_def)
  then show ?thesis
    by (simp add: sourceFiles_def filter_map comp_def signatureOfFile_def)
qed

lemma collected_not_skipped:
  assumes "symb \<in> set (symbols (collectSymbols l))"
  shows "symb \<in> set (symbols l) \<or> \<not> lookupBool (skip l) (Name symb)"
  using assms by (auto simp: collectSymbols_eq retained_def)

section \<open>The rename invoker: properties\<close>

lemma attempts_writeOut [simp]: "attempts (writeOut text w) = attempts w"
  by (simp add: writeOut_def)

lemma disk_writeOut [simp]: "disk (writeOut text w) = disk w"
  by (simp add: writeOut_def)

lemma attemptBy_writeOut [simp]:
  "attemptBy lower rename pos exported l (writeOut text w) = attemptBy lower rename pos exported l w"
  by (simp add: attemptBy_def)

lemma unexportLoop_skip:
  "\<not> IsExported upper (Name symb) \<Longrightarrow>
     unexportLoop lower upper rename (symb # symbs) l w = unexportLoop lower upper rename symbs l w"
  by simp

lemma unexportLoop_step:
  assumes "IsExported upper (Name symb)"
  shows "unexportLoop lower upper rename (symb # symbs) l w =
     (case fst (tryUnexport lower rename (NamePos symb) (Name symb) l (writeOut (tryingLine (Name symb)) w)) of
        Inl e \<Rightarrow> (Inl e, snd (tryUnexport lower rename (NamePos symb) (Name symb) l (writeOut (tryingLine (Name symb)) w)))
      | Inr p \<Rightarrow> unexportLoop lower upper rename symbs (snd p)
          (writeOut (statusLine (fst p))
             (snd (tryUnexport lower rename (NamePos symb) (Name symb) l (writeOut (tryingLine (Name symb)) w)))))"
  using assms by (simp split: prod.splits sum.splits)

text \<open>
  From here on the loop is unfolded by the two lemmas above only: one step for a name
  that is not exported, one for a name that is.
\<close>

declare unexportLoop.simps(2) [simp del]

lemma tryUnexport_attempts:
  "attempts (snd (tryUnexport lower rename pos exported l w))
     = attempts w @ [attemptBy lower rename pos exported l w]"
  by (simp add: tryUnexport_def attemptBy_def Let_def split: sum.splits)

lemma tryUnexport_failed:
  assumes "aFailed (attemptBy lower rename pos exported l w)"
  shows "fst (tryUnexport lower rename pos exported l w)
     = Inr (''impossible: '' @ fst (prettyError (aOut (attemptBy lower rename pos exported l w))), l)"
  using assms by (simp add: tryUnexport_def attemptBy_def Let_def)

lemma tryUnexport_succeeded:
  assumes "\<not> aFailed (attemptBy lower rename pos exported l w)" and "success l = Some m"
  shows "fst (tryUnexport lower rename pos exported l w)
     = Inr (''success'', l\<lparr>success := Some (m(successKey (fset l pos) exported \<mapsto>
               exported @ '' -> '' @ toLowerFirst lower exported))\<rparr>)"
  using assms by (simp add: tryUnexport_def attemptBy_def Let_def assign_def)

lemma tryUnexport_recorded:
  assumes "success l = Some m"
  shows "\<exists>status. fst (tryUnexport lower rename pos exported l w)
     = Inr (status, l\<lparr>success := Some (recordAttempt (fset l) (attemptBy lower rename pos exported l w) m)\<rparr>)"
proof (cases "aFailed (attemptBy lower rename pos exported l w)")
  case True
  then show ?thesis
    using assms by (simp add: tryUnexport_failed recordAttempt_def)
next
  case False
  from tryUnexport_succeeded [OF False assms] show ?thesis
    using False by (simp add: recordAttempt_def attemptBy_def)
qed

lemma attemptArgs_attemptBy:
  "attemptArgs (attemptBy lower rename (NamePos symb) (Name symb) l w) = attemptOf lower (fset l) symb"
  by (simp add: attemptArgs_def attemptBy_def attemptOf_def)

lemma unexportLoop_prefix:
  "\<exists>as. attempts (snd (unexportLoop lower upper rename symbs l w)) = attempts w @ as
     \<and> prefix (map attemptArgs as)
          (map (attemptOf lower (fset l)) (filter (\<lambda>symb. IsExported upper (Name symb)) symbs))"
proof (induction symbs arbitrary: l w)
  case Nil
  show ?case by simp
next
  case (Cons symb symbs)
  show ?case
  proof (cases "IsExported upper (Name symb)")
    case False
    with Cons.IH [of l w] show ?thesis by (simp add: unexportLoop_skip)
  next
    case True
    let ?w0 = "writeOut (tryingLine (Name symb)) w"
    let ?r = "tryUnexport lower rename (NamePos symb) (Name symb) l ?w0"
    let ?a = "attemptBy lower rename (NamePos symb) (Name symb) l ?w0"
    have att: "attempts (snd ?r) = attempts w @ [?a]"
      by (simp add: tryUnexport_attempts)
    show ?thesis
    proof (cases "fst ?r")
      case (Inl e)
      then have "unexportLoop lower upper rename (symb # symbs) l w = (Inl e, snd ?r)"
        by (subst unexportLoop_step [OF True]) simp
      with att True show ?thesis
        by (simp add: attemptArgs_attemptBy)
    next
      case (Inr p)
      obtain status l' where p: "p = (status, l')" by (cases p)
      let ?w1 = "writeOut (statusLine status) (snd ?r)"
      have step: "unexportLoop lower upper rename (symb # symbs) l w
          = unexportLoop lower upper rename symbs l' ?w1"
        using Inr p by (subst unexportLoop_step [OF True]) simp
      have fs: "fset l' = fset l"
        using Inr p by (auto simp: tryUnexport_def Let_def assign_def split: if_splits option.splits)
      from Cons.IH [of l' ?w1] obtain as where
        as: "attempts (snd (unexportLoop lower upper rename symbs l' ?w1)) = attempts ?w1 @ as"
        "prefix (map attemptArgs as)
          (map (attemptOf lower (fset l')) (filter (\<lambda>symb. IsExported upper (Name symb)) symbs))"
        by blast
      have "attempts (snd (unexportLoop lower upper rename (symb # symbs) l w)) = attempts w @ (?a # as)"
        using as(1) att by (simp add: step)
      moreover have "prefix (map attemptArgs (?a # as))
          (map (attemptOf lower (fset l)) (filter (\<lambda>symb. IsExported upper (Name symb)) (symb # symbs)))"
        using as(2) True by (simp add: fs attemptArgs_attemptBy)
      ultimately show ?thesis by blast
    qed
  qed
qed

lemma unexportLoop_complete:
  assumes "success l = Some m"
  shows "\<exists>as w'. unexportLoop lower upper rename symbs l w
            = (Inr (l\<lparr>success := Some (fold (recordAttempt (fset l)) as m)\<rparr>), w')
     \<and> attempts w' = attempts w @ as
     \<and> map attemptArgs as
          = map (attemptOf lower (fset l)) (filter (\<lambda>symb. IsExported upper (Name symb)) symbs)"
  using assms
proof (induction symbs arbitrary: l w m)
  case Nil
  then have "l\<lparr>success := Some m\<rparr> = l" by simp
  then show ?case by simp
next
  case (Cons symb symbs)
  show ?case
  proof (cases "IsExported upper (Name symb)")
    case False
    with Cons.IH [OF Cons.prems, of w] show ?thesis by (simp add: unexportLoop_skip)
  next
    case True
    let ?w0 = "writeOut (tryingLine (Name symb)) w"
    let ?r = "tryUnexport lower rename (NamePos symb) (Name symb) l ?w0"
    let ?a = "attemptBy lower rename (NamePos symb) (Name symb) l ?w0"
    let ?l' = "l\<lparr>success := Some (recordAttempt (fset l) ?a m)\<rparr>"
    have att: "attempts (snd ?r) = attempts w @ [?a]"
      by (simp add: tryUnexport_attempts)
    from tryUnexport_recorded [OF Cons.prems] obtain status where
      st: "fst ?r = Inr (status, ?l')" by blast
    let ?w1 = "writeOut (statusLine status) (snd ?r)"
    have step: "unexportLoop lower upper rename (symb # symbs) l w
        = unexportLoop lower upper rename symbs ?l' ?w1"
      using st by (subst unexportLoop_step [OF True]) simp
    have "success ?l' = Some (recordAttempt (fset l) ?a m)" by simp
    from Cons.IH [OF this, of ?w1] obtain as w' where
      as: "unexportLoop lower upper rename symbs ?l' ?w1
            = (Inr (?l'\<lparr>success := Some (fold (recordAttempt (fset ?l')) as (recordAttempt (fset l) ?a m))\<rparr>), w')"
        "attempts w' = attempts ?w1 @ as"
        "map attemptArgs as
          = map (attemptOf lower (fset ?l')) (filter (\<lambda>symb. IsExported upper (Name symb)) symbs)"
      by blast
    have "unexportLoop lower upper rename (symb # symbs) l w
            = (Inr (l\<lparr>success := Some (fold (recordAttempt (fset l)) (?a # as) m)\<rparr>), w')"
      using as(1) by (simp add: step)
    moreover have "attempts w' = attempts w @ (?a # as)"
      using as(2) att by simp
    moreover have "map attemptArgs (?a # as)
          = map (attemptOf lower (fset l)) (filter (\<lambda>symb. IsExported upper (Name symb)) (symb # symbs))"
      using as(3) True by (simp add: attemptArgs_attemptBy)
    ultimately show ?thesis by blast
  qed
qed

text \<open>
  One call of \<^verbatim>\<open>tryUnexport\<close> leaves the disk as one run of the renamer leaves it, and the
  loop leaves it as the runs for the exported symbols, one after the other, leave it.
\<close>

lemma tryUnexport_disk:
  "disk (snd (tryUnexport lower rename pos exported l w))
     = snd (rename (disk w) (renameOffset (fset l pos)) (toLowerFirst lower exported))"
  by (simp add: tryUnexport_def Let_def writeOut_def split: sum.splits)

lemma unexportLoop_runs:
  assumes "success l = Some m"
  shows "attempts (snd (unexportLoop lower upper rename symbs l w))
       = attempts w @ fst (renamerRuns lower rename (fset l)
           (filter (\<lambda>symb. IsExported upper (Name symb)) symbs) (disk w))
     \<and> disk (snd (unexportLoop lower upper rename symbs l w))
       = snd (renamerRuns lower rename (fset l)
           (filter (\<lambda>symb. IsExported upper (Name symb)) symbs) (disk w))"
  using assms
proof (induction symbs arbitrary: l w m)
  case Nil
  show ?case by simp
next
  case (Cons symb symbs)
  show ?case
  proof (cases "IsExported upper (Name symb)")
    case False
    with Cons.IH [OF Cons.prems, of w] show ?thesis by (simp add: unexportLoop_skip)
  next
    case True
    let ?w0 = "writeOut (tryingLine (Name symb)) w"
    let ?r = "tryUnexport lower rename (NamePos symb) (Name symb) l ?w0"
    let ?a = "attemptBy lower rename (NamePos symb) (Name symb) l w"
    let ?l' = "l\<lparr>success := Some (recordAttempt (fset l) ?a m)\<rparr>"
    have att: "attempts (snd ?r) = attempts w @ [?a]"
      by (simp add: tryUnexport_attempts)
    have dsk: "disk (snd ?r) = snd (rename (disk w) (renameOffset (fset l (NamePos symb)))
        (toLowerFirst lower (Name symb)))"
      by (simp add: tryUnexport_disk)
    from tryUnexport_recorded [OF Cons.prems, of lower rename "NamePos symb" "Name symb" ?w0]
    obtain status where st: "fst ?r = Inr (status, ?l')" by auto
    let ?w1 = "writeOut (statusLine status) (snd ?r)"
    have step: "unexportLoop lower upper rename (symb # symbs) l w
        = unexportLoop lower upper rename symbs ?l' ?w1"
      using st by (subst unexportLoop_step [OF True]) simp
    have "success ?l' = Some (recordAttempt (fset l) ?a m)" by simp
    from Cons.IH [OF this, of ?w1] att dsk True
    show ?thesis
      by (simp add: step Let_def attemptBy_def)
  qed
qed

lemma unexportSymbols_prefix:
  "prefix (map attemptArgs (newAttempts w (snd (unexportSymbols lower upper rename l w))))
      (map (attemptOf lower (fset l)) (filter (\<lambda>symb. IsExported upper (Name symb)) (symbols l)))"
  using unexportLoop_prefix [of lower upper rename "symbols l" l w]
  by (auto simp: unexportSymbols_def newAttempts_def)

lemma attempt_for_exported_symbol:
  assumes "a \<in> set (newAttempts w (snd (unexportSymbols lower upper rename l w)))"
  shows "\<exists>symb \<in> set (symbols l). IsExported upper (Name symb) \<and> attemptArgs a = attemptOf lower (fset l) symb"
proof -
  from assms have "attemptArgs a \<in> set (map attemptArgs (newAttempts w (snd (unexportSymbols lower upper rename l w))))"
    by simp
  with set_mono_prefix [OF unexportSymbols_prefix [of w lower upper rename l]]
  have "attemptArgs a \<in> set (map (attemptOf lower (fset l)) (filter (\<lambda>symb. IsExported upper (Name symb)) (symbols l)))"
    by blast
  then show ?thesis by auto
qed

text \<open>The steps of \<^verbatim>\<open>main\<close> never panic: \<^verbatim>\<open>init\<close> makes every map before it is written.\<close>

lemma steps_run_to_the_end:
  "\<exists>l'. fst (steps lower upper rename v u s targets fs ps w) = Inr l'"
proof -
  from parseFlags_made [of "init zeroLinter" v u s targets]
  obtain mu ms where p: "parseFlags v u s targets (init zeroLinter) =
     Inr ((init zeroLinter)\<lparr>flags_verbose := v, flags_unexport := u, flags_skip := s,
            flags_targets := targets, unexport := Some mu, skip := Some ms\<rparr>)"
    by (auto simp: init_def)
  let ?l = "collectSymbols ((init zeroLinter)\<lparr>flags_verbose := v, flags_unexport := u,
      flags_skip := s, flags_targets := targets, unexport := Some mu, skip := Some ms,
      fset := fs, pkgs := ps\<rparr>)"
  have "success ?l = Some Map.empty"
    by (simp add: collectSymbols_eq init_def)
  from unexportLoop_complete [OF this, of lower upper rename "symbols ?l" w]
  show ?thesis
    by (auto simp: steps_def p unexportSymbols_def)
qed

section \<open>The sample run, evaluated\<close>

lemma sample_symbols0: "symbols (sampleLinter u s) = []"
proof -
  from parseFlags_made [of "init zeroLinter" False u s "[]"]
  obtain mu ms where "parseFlags False u s [] (init zeroLinter) =
     Inr ((init zeroLinter)\<lparr>flags_verbose := False, flags_unexport := u, flags_skip := s, flags_targets := [],
            unexport := Some mu, skip := Some ms\<rparr>)"
    by (auto simp: init_def)
  then show ?thesis
    by (simp add: sampleLinter_def init_def zeroLinter_def)
qed

lemma sample_success: "success (collectSymbols (sampleLinter u s)) = Some Map.empty"
proof -
  from parseFlags_made [of "init zeroLinter" False u s "[]"]
  obtain mu ms where "parseFlags False u s [] (init zeroLinter) =
     Inr ((init zeroLinter)\<lparr>flags_verbose := False, flags_unexport := u, flags_skip := s, flags_targets := [],
            unexport := Some mu, skip := Some ms\<rparr>)"
    by (auto simp: init_def)
  then show ?thesis
    by (simp add: collectSymbols_eq sampleLinter_def init_def)
qed

lemma sample_fset: "fset (collectSymbols (sampleLinter u s)) = sampleFset"
proof -
  from parseFlags_made [of "init zeroLinter" False u s "[]"]
  obtain mu ms where "parseFlags False u s [] (init zeroLinter) =
     Inr ((init zeroLinter)\<lparr>flags_verbose := False, flags_unexport := u, flags_skip := s, flags_targets := [],
            unexport := Some mu, skip := Some ms\<rparr>)"
    by (auto simp: init_def)
  then show ?thesis
    by (simp add: collectSymbols_eq sampleLinter_def)
qed

lemma newAttempts_sampleWorld: "newAttempts sampleWorld w' = attempts w'"
  by (simp add: newAttempts_def sampleWorld_def)

lemma steps_sample:
  "steps lower upper rename False u s [] sampleFset samplePkgs w
     = unexportSymbols lower upper rename (collectSymbols (sampleLinter u s)) w"
proof -
  from parseFlags_made [of "init zeroLinter" False u s "[]"]
  obtain l where "parseFlags False u s [] (init zeroLinter) = Inr l"
    by (auto simp: init_def)
  then show ?thesis
    by (simp add: steps_def sampleLinter_def)
qed

lemma sample_attempts:
  "attempts (snd (unexportSymbols latin1Lower greekUpper sampleRename
       (collectSymbols (sampleLinter [] [])) sampleWorld)) = 
 [\<lparr>aPos = 20, aName = ''Foo'', aOffset = ''a.go:#19'', aTo = ''foo'',
     aOut = [], aFailed = False\<rparr>,
  \<lparr>aPos = 35, aName = ''Baz'', aOffset = ''a.go:#34'', aTo = ''baz'',
     aOut =
       ''renaming this var Baz to baz would make it unexported, breaking references from package client; no longer assignable to interface'',
     aFailed = True\<rparr>,
  \<lparr>aPos = 60, aName = ''Run'', aOffset = ''a.go:#59'', aTo = ''run'',
     aOut = ''exit status 2'', aFailed = True\<rparr>]"
  by code_simp

lemma sample_symbols:
  "symbols (collectSymbols (sampleLinter [] [])) =
     [\<lparr>NamePos = 20, Name = ''Foo''\<rparr>, \<lparr>NamePos = 30, Name = ''bar''\<rparr>,
      \<lparr>NamePos = 35, Name = ''Baz''\<rparr>, \<lparr>NamePos = 60, Name = ''Run''\<rparr>]"
  by code_simp

lemma pathless: "Filename (sampleFset (Package pathlessFile)) = []"
  by (simp add: sampleFset_def pathlessFile_def)

lemma sample_linter_fset: "fset (sampleLinter u s) = sampleFset"
  using sample_fset [of u s] by (simp add: collectSymbols_eq)

lemma sample_Bar:
  "unexport (sampleLinter ''Bar'' []) \<noteq> None"
  "lookupBool (unexport (sampleLinter ''Bar'' [])) ''Bar''"
  "\<not> lookupBool (unexport (sampleLinter ''Bar'' [])) ''Foo''"
  "\<not> lookupBool (skip (sampleLinter ''Bar'' [])) ''Foo''"
  by (simp_all add: sampleLinter_def parseFlags_def init_def zeroLinter_def Split_def assign_def lookupBool_def)

lemma sample_skip_Foo:
  "lookupBool (skip (sampleLinter [] ''Foo'')) ''Foo''"
  by (simp add: sampleLinter_def parseFlags_def init_def zeroLinter_def Split_def assign_def lookupBool_def)

lemma sample_skip_symbols:
  "map Name (symbols (collectSymbols (sampleLinter [] ''Foo''))) = [''bar'', ''Baz'', ''Run'']"
  by (simp add: collectSymbols_eq sourceFiles_def retained_def topLevelIdents_def
      sampleLinter_def parseFlags_def init_def zeroLinter_def Split_def assign_def lookupBool_def
      samplePkgs_def sampleFile_def pathlessFile_def sampleFset_def)

lemma sample_skip_attempts:
  "map aName (attempts (snd (unexportSymbols latin1Lower greekUpper sampleRename
       (collectSymbols (sampleLinter [] ''Foo'')) sampleWorld))) = [''Baz'', ''Run'']"
  by code_simp

lemma sample_keys:
  "successKey (sampleFset 20) ''Foo'' = ''a.go:1:20/Foo''"
  "successKey (sampleFset 35) ''Baz'' = ''a.go:1:35/Baz''"
  "successKey (sampleFset 60) ''Run'' = ''a.go:1:60/Run''"
  by code_simp+

lemma sample_lower:
  "toLowerFirst latin1Lower ''Foo'' = ''foo''"
  "toLowerFirst latin1Lower ''Baz'' = ''baz''"
  by (simp_all add: toLowerFirst_def ToLower_def runeToString_def byte_def char_of_def)

lemma sample_Baz_refused:
  "aFailed (attemptBy latin1Lower sampleRename 35 ''Baz'' l sampleWorld)"
  "fst (prettyError (aOut (attemptBy latin1Lower sampleRename 35 ''Baz'' l sampleWorld)))
     = ''would break package clients''"
  by (simp_all add: attemptBy_def sampleRename_def sample_lower prettyError_def Contains_def
      sublist_Cons_right)

lemma sample_Foo_accepted:
  "\<not> aFailed (attemptBy latin1Lower sampleRename 20 ''Foo'' l sampleWorld)"
  by (simp add: attemptBy_def sampleRename_def sample_lower)

lemma sample_exported:
  "filter (\<lambda>symb. IsExported greekUpper (Name symb)) (symbols (collectSymbols (sampleLinter [] [])))
     = [\<lparr>NamePos = 20, Name = ''Foo''\<rparr>, \<lparr>NamePos = 35, Name = ''Baz''\<rparr>,
        \<lparr>NamePos = 60, Name = ''Run''\<rparr>]"
  by (simp add: sample_symbols IsExported_def IsUpper_def byte_def)

lemma sample_runs_disk:
  "snd (renamerRuns latin1Lower sampleRename sampleFset
      [\<lparr>NamePos = 20, Name = ''Foo''\<rparr>, \<lparr>NamePos = 35, Name = ''Baz''\<rparr>,
       \<lparr>NamePos = 60, Name = ''Run''\<rparr>] []) = [(''a.go:#19'', ''foo'')]"
  by code_simp

lemma countingWorld_simps: "disk countingWorld = 0" "attempts countingWorld = []"
  by (simp_all add: countingWorld_def)

section \<open>The claims about the collector and the invoker\<close>

text \<open>
  C9. The collector appends exactly the top-level identifiers (the names of value
  specifications, of type specifications and of function declarations, methods
  included) of the files whose position resolves to a non-empty file name, filtered by
  \<^verbatim>\<open>collectSym\<close>; it collects the same symbols when every function body and every
  initialising value is taken away, so nothing nested in them is visited; and a file
  whose file name is empty leaves the linter as it was.
\<close>

theorem collectSymbols_top_level_only:
  "collectSymbols l =
     l\<lparr>symbols := symbols l @ filter (retained l) (concat (map topLevelIdents (sourceFiles l)))\<rparr>
   \<and> symbols (collectSymbols (l\<lparr>pkgs := map signatureOfPackage (pkgs l)\<rparr>))
       = symbols (collectSymbols l)
   \<and> (Filename (fset l (Package f)) = [] \<longrightarrow> collectFile f l = l)"
proof (intro conjI impI)
  show "collectSymbols l =
     l\<lparr>symbols := symbols l @ filter (retained l) (concat (map topLevelIdents (sourceFiles l)))\<rparr>"
    by (rule collectSymbols_eq)
next
  have "concat (map topLevelIdents (map signatureOfFile fs)) = concat (map topLevelIdents fs)"
    for fs by (simp add: comp_def)
  then show "symbols (collectSymbols (l\<lparr>pkgs := map signatureOfPackage (pkgs l)\<rparr>))
       = symbols (collectSymbols l)"
    by (simp add: collectSymbols_eq sourceFiles_signature)
next
  assume "Filename (fset l (Package f)) = []"
  then show "collectFile f l = l" by (simp add: collectFile_def)
qed

theorem collectSymbols_top_level_only_witness:
  "Filename (sampleFset (Package pathlessFile)) = []
   \<and> collectFile pathlessFile (sampleLinter [] []) = sampleLinter [] []
   \<and> map Name (symbols (collectSymbols (sampleLinter [] [])))
       = [''Foo'', ''bar'', ''Baz'', ''Run'']
   \<and> map Name (symbols (collectSymbols
         ((sampleLinter [] [])\<lparr>pkgs := map signatureOfPackage (pkgs (sampleLinter [] []))\<rparr>)))
       = [''Foo'', ''bar'', ''Baz'', ''Run'']"
proof -
  note inst = collectSymbols_top_level_only [of "sampleLinter [] []" pathlessFile]
  from inst pathless have "collectFile pathlessFile (sampleLinter [] []) = sampleLinter [] []"
    by (simp add: sample_linter_fset)
  moreover from inst have "symbols (collectSymbols
         ((sampleLinter [] [])\<lparr>pkgs := map signatureOfPackage (pkgs (sampleLinter [] []))\<rparr>))
       = symbols (collectSymbols (sampleLinter [] []))"
    by blast
  ultimately show ?thesis
    by (simp add: pathless sample_symbols)
qed

text \<open>
  C1, as the program has it: once \<^verbatim>\<open>init\<close> has made the \<^verbatim>\<open>unexport\<close> map, the test
  \<^verbatim>\<open>l.unexport != nil\<close> holds, and every name that is not skipped is retained, in the
  unexport set or not. The specification retains a name only if the unexport set holds
  it or is empty; with \<^verbatim>\<open>-unexport=Bar\<close> the program retains \<^verbatim>\<open>Foo\<close> as well.
\<close>

theorem collectSym_ignores_unexport_set:
  assumes "unexport l \<noteq> None" and "\<not> lookupBool (skip l) (Name symb)"
  shows "symbols (collectSym symb l) = symbols l @ [symb]"
  using assms by (simp add: collectSym_def)

theorem collectSym_ignores_unexport_set_witness:
  "lookupBool (unexport (sampleLinter ''Bar'' [])) ''Bar''
   \<and> \<not> lookupBool (unexport (sampleLinter ''Bar'' [])) ''Foo''
   \<and> \<not> lookupBool (skip (sampleLinter ''Bar'' [])) ''Foo''
   \<and> symbols (collectSym \<lparr>NamePos = 20, Name = ''Foo''\<rparr> (sampleLinter ''Bar'' []))
       = [\<lparr>NamePos = 20, Name = ''Foo''\<rparr>]"
proof -
  have "\<not> lookupBool (skip (sampleLinter ''Bar'' [])) (Name \<lparr>NamePos = 20, Name = ''Foo''\<rparr>)"
    by (simp add: sample_Bar)
  from collectSym_ignores_unexport_set [OF sample_Bar(1) this]
  show ?thesis by (simp add: sample_Bar sample_symbols0)
qed

text \<open>
  C5. A name in the skip set is never added to the symbol list, whatever the unexport
  map is, and no rename is attempted for it: it is the name of no collected symbol and
  of no attempt of the run, and \<^verbatim>\<open>collectSym\<close> leaves the linter as it was.
\<close>

theorem skip_wins:
  assumes "lookupBool (skip l) n" and "n \<notin> Name ` set (symbols l)"
  shows "n \<notin> Name ` set (symbols (collectSymbols l))
     \<and> n \<notin> aName ` set (newAttempts w (snd (unexportSymbols lower upper rename (collectSymbols l) w)))
     \<and> (Name symb = n \<longrightarrow> collectSym symb l = l)"
proof (intro conjI impI)
  show c: "n \<notin> Name ` set (symbols (collectSymbols l))"
    using assms collected_not_skipped [of _ l] by blast
  show "n \<notin> aName ` set (newAttempts w (snd (unexportSymbols lower upper rename (collectSymbols l) w)))"
  proof
    assume "n \<in> aName ` set (newAttempts w (snd (unexportSymbols lower upper rename (collectSymbols l) w)))"
    then obtain a where a: "a \<in> set (newAttempts w (snd (unexportSymbols lower upper rename (collectSymbols l) w)))"
      and n: "n = aName a" by blast
    from attempt_for_exported_symbol [OF a] obtain symb where
      "symb \<in> set (symbols (collectSymbols l))" "attemptArgs a = attemptOf lower (fset (collectSymbols l)) symb"
      by blast
    then have "aName a \<in> Name ` set (symbols (collectSymbols l))"
      by (auto simp: attemptArgs_def attemptOf_def)
    with c n show False by simp
  qed
next
  assume "Name symb = n"
  with assms(1) show "collectSym symb l = l" by (simp add: collectSym_def)
qed

theorem skip_wins_witness:
  "lookupBool (skip (sampleLinter [] ''Foo'')) ''Foo''
   \<and> ''Foo'' \<notin> Name ` set (symbols (sampleLinter [] ''Foo''))
   \<and> ''Foo'' \<notin> Name ` set (symbols (collectSymbols (sampleLinter [] ''Foo'')))
   \<and> ''Foo'' \<notin> aName ` set (newAttempts sampleWorld (snd (unexportSymbols latin1Lower greekUpper
         sampleRename (collectSymbols (sampleLinter [] ''Foo'')) sampleWorld)))
   \<and> collectSym \<lparr>NamePos = 20, Name = ''Foo''\<rparr> (sampleLinter [] ''Foo'') = sampleLinter [] ''Foo''
   \<and> map Name (symbols (collectSymbols (sampleLinter [] ''Foo''))) = [''bar'', ''Baz'', ''Run'']
   \<and> map aName (newAttempts sampleWorld (snd (unexportSymbols latin1Lower greekUpper
         sampleRename (collectSymbols (sampleLinter [] ''Foo'')) sampleWorld))) = [''Baz'', ''Run'']"
proof -
  have h: "''Foo'' \<notin> Name ` set (symbols (sampleLinter [] ''Foo''))"
    by (simp add: sample_symbols0)
  from skip_wins [OF sample_skip_Foo h, of sampleWorld latin1Lower greekUpper sampleRename
      "\<lparr>NamePos = 20, Name = ''Foo''\<rparr>"]
  show ?thesis
    using h by (simp add: sample_skip_Foo sample_skip_symbols sample_skip_attempts newAttempts_sampleWorld)
qed

text \<open>
  C6. The attempts of a run are made, in order, for the symbols of the list whose name is
  exported (for all of them, or for the first of them when a panic ends the run), so
  every attempt is for an exported name; a symbol whose name is not exported is passed
  over without a rename and without output.
\<close>

theorem unexportSymbols_only_exported:
  "prefix (map attemptArgs (newAttempts w (snd (unexportSymbols lower upper rename l w))))
      (map (attemptOf lower (fset l)) (filter (\<lambda>symb. IsExported upper (Name symb)) (symbols l)))
   \<and> (\<forall>a \<in> set (newAttempts w (snd (unexportSymbols lower upper rename l w))). IsExported upper (aName a))
   \<and> (\<not> IsExported upper (Name symb) \<longrightarrow>
        unexportLoop lower upper rename (symb # symbs) l w = unexportLoop lower upper rename symbs l w)"
proof (intro conjI ballI impI)
  show "prefix (map attemptArgs (newAttempts w (snd (unexportSymbols lower upper rename l w))))
      (map (attemptOf lower (fset l)) (filter (\<lambda>symb. IsExported upper (Name symb)) (symbols l)))"
    by (rule unexportSymbols_prefix)
next
  fix a assume "a \<in> set (newAttempts w (snd (unexportSymbols lower upper rename l w)))"
  from attempt_for_exported_symbol [OF this]
  show "IsExported upper (aName a)"
    by (auto simp: attemptArgs_def attemptOf_def)
next
  assume "\<not> IsExported upper (Name symb)"
  then show "unexportLoop lower upper rename (symb # symbs) l w = unexportLoop lower upper rename symbs l w"
    by (rule unexportLoop_skip)
qed

theorem unexportSymbols_only_exported_witness:
  "map Name (symbols (collectSymbols (sampleLinter [] []))) = [''Foo'', ''bar'', ''Baz'', ''Run'']
   \<and> \<not> IsExported greekUpper ''bar''
   \<and> map aName (newAttempts sampleWorld (snd (unexportSymbols latin1Lower greekUpper sampleRename
        (collectSymbols (sampleLinter [] [])) sampleWorld))) = [''Foo'', ''Baz'', ''Run'']
   \<and> IsExported greekUpper ''Foo'' \<and> IsExported greekUpper ''Baz'' \<and> IsExported greekUpper ''Run''
   \<and> unexportLoop latin1Lower greekUpper sampleRename [\<lparr>NamePos = 30, Name = ''bar''\<rparr>]
        (collectSymbols (sampleLinter [] [])) sampleWorld
       = (Inr (collectSymbols (sampleLinter [] [])), sampleWorld)"
proof -
  let ?w' = "snd (unexportSymbols latin1Lower greekUpper sampleRename
        (collectSymbols (sampleLinter [] [])) sampleWorld)"
  note inst = unexportSymbols_only_exported [of sampleWorld latin1Lower greekUpper sampleRename
      "collectSymbols (sampleLinter [] [])" "\<lparr>NamePos = 30, Name = ''bar''\<rparr>" "[]"]
  have bar: "\<not> IsExported greekUpper ''bar''"
    by (simp add: IsExported_def IsUpper_def byte_def)
  have names: "map aName (newAttempts sampleWorld ?w') = [''Foo'', ''Baz'', ''Run'']"
    by (simp add: newAttempts_sampleWorld sample_attempts)
  from inst have "\<forall>a \<in> set (newAttempts sampleWorld ?w'). IsExported greekUpper (aName a)"
    by blast
  then have "\<forall>n \<in> set (map aName (newAttempts sampleWorld ?w')). IsExported greekUpper n"
    by simp
  then have exported: "IsExported greekUpper ''Foo'' \<and> IsExported greekUpper ''Baz'' \<and> IsExported greekUpper ''Run''"
    unfolding names by simp
  from inst bar
  have "unexportLoop latin1Lower greekUpper sampleRename [\<lparr>NamePos = 30, Name = ''bar''\<rparr>]
        (collectSymbols (sampleLinter [] [])) sampleWorld
      = unexportLoop latin1Lower greekUpper sampleRename [] (collectSymbols (sampleLinter [] []))
          sampleWorld"
    by simp
  then have "unexportLoop latin1Lower greekUpper sampleRename [\<lparr>NamePos = 30, Name = ''bar''\<rparr>]
        (collectSymbols (sampleLinter [] [])) sampleWorld
      = (Inr (collectSymbols (sampleLinter [] [])), sampleWorld)"
    by simp
  with bar names exported show ?thesis
    by (simp add: sample_symbols)
qed

text \<open>
  C7. With the success map made, the run ends without a panic, and the renamer has been
  run exactly once for each exported symbol, in the order of the list, whatever it
  answers: the attempts of the run and the disk at its end are those of running the
  renamer once per exported symbol, each run on the disk the run before has left. The
  success map at the end is the map at the start with one entry written for each attempt
  that did not fail, under the key \<^verbatim>\<open>position/name\<close> and with the text
  \<^verbatim>\<open>name -> newName\<close>. One call of \<^verbatim>\<open>tryUnexport\<close> makes one attempt and leaves the disk as
  one run of the renamer leaves it; when the renamer fails the linter, its success map
  included, is unchanged.
\<close>

theorem failed_attempt_is_final:
  assumes "success l = Some m"
  shows "(\<exists>w'. unexportSymbols lower upper rename l w
             = (Inr (l\<lparr>success := Some (fold (recordAttempt (fset l)) (newAttempts w w') m)\<rparr>), w')
           \<and> map attemptArgs (newAttempts w w')
             = map (attemptOf lower (fset l)) (filter (\<lambda>symb. IsExported upper (Name symb)) (symbols l))
           \<and> newAttempts w w'
             = fst (renamerRuns lower rename (fset l)
                 (filter (\<lambda>symb. IsExported upper (Name symb)) (symbols l)) (disk w))
           \<and> disk w'
             = snd (renamerRuns lower rename (fset l)
                 (filter (\<lambda>symb. IsExported upper (Name symb)) (symbols l)) (disk w)))
     \<and> attempts (snd (tryUnexport lower rename pos exported l w))
         = attempts w @ [attemptBy lower rename pos exported l w]
     \<and> disk (snd (tryUnexport lower rename pos exported l w))
         = snd (rename (disk w) (renameOffset (fset l pos)) (toLowerFirst lower exported))
     \<and> (aFailed (attemptBy lower rename pos exported l w) \<longrightarrow>
          fst (tryUnexport lower rename pos exported l w)
            = Inr (''impossible: '' @ fst (prettyError (aOut (attemptBy lower rename pos exported l w))), l))
     \<and> (\<not> aFailed (attemptBy lower rename pos exported l w) \<longrightarrow>
          fst (tryUnexport lower rename pos exported l w)
            = Inr (''success'', l\<lparr>success := Some (m(successKey (fset l pos) exported \<mapsto>
                     exported @ '' -> '' @ toLowerFirst lower exported))\<rparr>))"
proof -
  let ?exported = "filter (\<lambda>symb. IsExported upper (Name symb)) (symbols l)"
  from unexportLoop_complete [OF assms, of lower upper rename "symbols l" w]
  obtain as w' where r: "unexportLoop lower upper rename (symbols l) l w
            = (Inr (l\<lparr>success := Some (fold (recordAttempt (fset l)) as m)\<rparr>), w')"
     and a: "attempts w' = attempts w @ as"
     and m: "map attemptArgs as = map (attemptOf lower (fset l)) ?exported"
    by blast
  from a have n: "newAttempts w w' = as" by (simp add: newAttempts_def)
  from r have w': "w' = snd (unexportLoop lower upper rename (symbols l) l w)" by simp
  from unexportLoop_runs [OF assms, of lower upper rename "symbols l" w]
  have runs: "attempts w' = attempts w @ fst (renamerRuns lower rename (fset l) ?exported (disk w))"
    and dsk: "disk w' = snd (renamerRuns lower rename (fset l) ?exported (disk w))"
    unfolding w' by simp_all
  from runs a have as: "as = fst (renamerRuns lower rename (fset l) ?exported (disk w))"
    by simp
  have "\<exists>w'. unexportSymbols lower upper rename l w
             = (Inr (l\<lparr>success := Some (fold (recordAttempt (fset l)) (newAttempts w w') m)\<rparr>), w')
           \<and> map attemptArgs (newAttempts w w') = map (attemptOf lower (fset l)) ?exported
           \<and> newAttempts w w' = fst (renamerRuns lower rename (fset l) ?exported (disk w))
           \<and> disk w' = snd (renamerRuns lower rename (fset l) ?exported (disk w))"
    using r m n as dsk unfolding unexportSymbols_def by blast
  then show ?thesis
    using tryUnexport_attempts [of lower rename pos exported l w]
      tryUnexport_disk [of lower rename pos exported l w]
      tryUnexport_failed [of lower rename pos exported l w]
      tryUnexport_succeeded [of lower rename pos exported l w m] assms
    by blast
qed

theorem failed_attempt_is_final_witness:
  "success (collectSymbols (sampleLinter [] [])) = Some Map.empty
   \<and> map (\<lambda>a. (aName a, aFailed a)) (attempts (snd (unexportSymbols latin1Lower greekUpper sampleRename
         (collectSymbols (sampleLinter [] [])) sampleWorld)))
       = [(''Foo'', False), (''Baz'', True), (''Run'', True)]
   \<and> disk (snd (unexportSymbols latin1Lower greekUpper sampleRename
         (collectSymbols (sampleLinter [] [])) sampleWorld)) = [(''a.go:#19'', ''foo'')]
   \<and> (\<exists>l'. fst (unexportSymbols latin1Lower greekUpper sampleRename
         (collectSymbols (sampleLinter [] [])) sampleWorld) = Inr l'
        \<and> map_option (\<lambda>m. (m ''a.go:1:20/Foo'', m ''a.go:1:35/Baz'', m ''a.go:1:60/Run'')) (success l')
            = Some (Some ''Foo -> foo'', None, None))
   \<and> aFailed (attemptBy latin1Lower sampleRename 35 ''Baz'' (collectSymbols (sampleLinter [] [])) sampleWorld)
   \<and> fst (tryUnexport latin1Lower sampleRename 35 ''Baz'' (collectSymbols (sampleLinter [] [])) sampleWorld)
       = Inr (''impossible: would break package clients'', collectSymbols (sampleLinter [] []))
   \<and> \<not> aFailed (attemptBy latin1Lower sampleRename 20 ''Foo'' (collectSymbols (sampleLinter [] [])) sampleWorld)
   \<and> fst (tryUnexport latin1Lower sampleRename 20 ''Foo'' (collectSymbols (sampleLinter [] [])) sampleWorld)
       = Inr (''success'', (collectSymbols (sampleLinter [] []))
               \<lparr>success := Some [''a.go:1:20/Foo'' \<mapsto> ''Foo -> foo'']\<rparr>)
   \<and> aFailed (attemptBy latin1Lower countingRename 35 ''Baz'' (collectSymbols (sampleLinter [] [])) countingWorld)
   \<and> disk (snd (tryUnexport latin1Lower countingRename 35 ''Baz''
         (collectSymbols (sampleLinter [] [])) countingWorld)) = 1
   \<and> map aFailed (attempts (snd (unexportSymbols latin1Lower greekUpper countingRename
         (collectSymbols (sampleLinter [] [])) countingWorld))) = [True, True, True]
   \<and> disk (snd (unexportSymbols latin1Lower greekUpper countingRename
         (collectSymbols (sampleLinter [] [])) countingWorld)) = 3"
proof -
  let ?l = "collectSymbols (sampleLinter [] [])"
  let ?run = "unexportSymbols latin1Lower greekUpper sampleRename ?l sampleWorld"
  let ?count = "unexportSymbols latin1Lower greekUpper countingRename ?l countingWorld"
  note Baz = failed_attempt_is_final [OF sample_success, of latin1Lower greekUpper sampleRename
      "[]" "[]" sampleWorld 35 "''Baz''"]
  note Foo = failed_attempt_is_final [OF sample_success, of latin1Lower greekUpper sampleRename
      "[]" "[]" sampleWorld 20 "''Foo''"]
  note Count = failed_attempt_is_final [OF sample_success, of latin1Lower greekUpper countingRename
      "[]" "[]" countingWorld 35 "''Baz''"]
  from Baz obtain w' where run: "?run = (Inr (?l\<lparr>success :=
      Some (fold (recordAttempt (fset ?l)) (newAttempts sampleWorld w') Map.empty)\<rparr>), w')"
    and dsk: "disk w' = snd (renamerRuns latin1Lower sampleRename (fset ?l)
        (filter (\<lambda>symb. IsExported greekUpper (Name symb)) (symbols ?l)) (disk sampleWorld))"
    by blast
  then have w': "w' = snd ?run" by simp
  then have att: "newAttempts sampleWorld w' = attempts (snd ?run)"
    by (simp add: newAttempts_sampleWorld)
  have "map_option (\<lambda>m. (m ''a.go:1:20/Foo'', m ''a.go:1:35/Baz'', m ''a.go:1:60/Run''))
          (success (?l\<lparr>success :=
             Some (fold (recordAttempt (fset ?l)) (newAttempts sampleWorld w') Map.empty)\<rparr>))
        = Some (Some ''Foo -> foo'', None, None)"
    unfolding att sample_attempts
    by (simp add: recordAttempt_def sample_fset sample_keys)
  moreover have "fst ?run = Inr (?l\<lparr>success :=
      Some (fold (recordAttempt (fset ?l)) (newAttempts sampleWorld w') Map.empty)\<rparr>)"
    by (simp add: run)
  moreover have "map (\<lambda>a. (aName a, aFailed a)) (attempts (snd ?run))
       = [(''Foo'', False), (''Baz'', True), (''Run'', True)]"
    by (simp add: sample_attempts)
  moreover have "disk (snd ?run) = [(''a.go:#19'', ''foo'')]"
    using dsk unfolding w' sample_exported sample_fset
    by (simp add: sampleWorld_def sample_runs_disk del: renamerRuns.simps)
  moreover from Baz sample_Baz_refused [of ?l]
  have "fst (tryUnexport latin1Lower sampleRename 35 ''Baz'' ?l sampleWorld)
       = Inr (''impossible: would break package clients'', ?l)"
    by simp
  moreover from Foo sample_Foo_accepted [of ?l]
  have "fst (tryUnexport latin1Lower sampleRename 20 ''Foo'' ?l sampleWorld)
       = Inr (''success'', ?l\<lparr>success := Some [''a.go:1:20/Foo'' \<mapsto> ''Foo -> foo'']\<rparr>)"
    by (simp add: sample_fset sample_keys sample_lower)
  moreover have cf: "aFailed (attemptBy latin1Lower countingRename 35 ''Baz'' ?l countingWorld)"
    by (simp add: attemptBy_def countingRename_def)
  moreover from Count
  have "disk (snd (tryUnexport latin1Lower countingRename 35 ''Baz'' ?l countingWorld)) = 1"
    by (simp add: countingRename_def countingWorld_simps)
  moreover from Count obtain c' where crun: "?count = (Inr (?l\<lparr>success :=
      Some (fold (recordAttempt (fset ?l)) (newAttempts countingWorld c') Map.empty)\<rparr>), c')"
    and cnew: "newAttempts countingWorld c' = fst (renamerRuns latin1Lower countingRename (fset ?l)
        (filter (\<lambda>symb. IsExported greekUpper (Name symb)) (symbols ?l)) (disk countingWorld))"
    and cdsk: "disk c' = snd (renamerRuns latin1Lower countingRename (fset ?l)
        (filter (\<lambda>symb. IsExported greekUpper (Name symb)) (symbols ?l)) (disk countingWorld))"
    by blast
  have c': "c' = snd ?count" using crun by simp
  have "newAttempts countingWorld c' = attempts c'"
    by (simp add: newAttempts_def countingWorld_simps)
  with cnew have "map aFailed (attempts (snd ?count)) = [True, True, True]"
    unfolding c' sample_exported by (simp add: Let_def countingRename_def)
  moreover from cdsk have "disk (snd ?count) = 3"
    unfolding c' sample_exported by (simp add: Let_def countingRename_def countingWorld_simps)
  ultimately show ?thesis
    using sample_success [of "[]" "[]"] sample_Baz_refused(1) [of ?l] sample_Foo_accepted [of ?l]
    by blast
qed

end
